theory Spec2Isabelle
  imports Complex_Main
begin

section \<open>Errors\<close>

text \<open>
  A JavaScript error object, by the constructor that built it and the string the
  constructor was given. For the built-in constructors (\<open>Error\<close>, \<open>TypeError\<close>,
  \<open>ReferenceError\<close>) that string is the error's message. \<open>NotAny\<close> and \<open>NotFound\<close> are
  the constructors \<open>errors.NotAny\<close> and \<open>errors.NotFound\<close> that \<open>models/device.js\<close>
  takes from \<open>require('../errors')\<close>; for them the string is the constructor's
  argument.
\<close>

datatype err_kind = Error | TypeError | ReferenceError | NotAny | NotFound

datatype err = Err (kind: err_kind) (arg: string)

section \<open>server-utils.js\<close>

subsection \<open>Data\<close>

text \<open>
  A header object is a mapping from header names to values. The options object of a
  request has an optional \<open>headers\<close> field; every other field it carries is the
  record's extension, so that it is kept as it is.
\<close>

type_synonym headers = "string \<rightharpoonup> string"

record options =
  headers :: "headers option"

text \<open>
  The response object the transport hands over: a status code and a body text. After
  \<open>sendRequest\<close> the body is either still that text or the structure that
  \<open>JSON.parse\<close> made of it.
\<close>

datatype 'j body = Text string | Json 'j

record 'b response =
  statusCode :: int
  body :: 'b

subsection \<open>checkIfOnline\<close>

text \<open>
  Collaborators that take a Node-style callback are modelled in continuation-passing
  form: \<open>connection.isOnline\<close> is a function that is given the continuation
  \<open>function(error, isOnline)\<close> and yields whatever comes of it. A collaborator that
  completes once with \<open>(error, isOnline)\<close> is \<open>\<lambda>k. k error isOnline\<close>. The argument
  \<open>None\<close> of the callback stands for a call without that argument (\<open>callback()\<close>).
\<close>

definition checkIfOnline ::
  "((err option \<Rightarrow> bool \<Rightarrow> 'r) \<Rightarrow> 'r) \<Rightarrow> (err option \<Rightarrow> 'r) \<Rightarrow> 'r" where
  "checkIfOnline connection_isOnline callback =
     connection_isOnline (\<lambda>error isOnline.
       if error \<noteq> None then callback error
       else if isOnline then callback None
       else callback (Some (Err Error ''You need internet connection to perform this task'')))"

subsection \<open>addAuthorizationHeader\<close>

text \<open>
  \<open>Inl\<close> is the exception the function throws. The source assigns the property on the
  object it was given and returns that object; the model returns the updated mapping.
\<close>

definition addAuthorizationHeader :: "headers option \<Rightarrow> string option \<Rightarrow> err + headers" where
  "addAuthorizationHeader hdrs token =
     (let hdrs = (case hdrs of None \<Rightarrow> Map.empty | Some h \<Rightarrow> h) in
      case token of
        None \<Rightarrow> Inl (Err Error ''Missing token'')
      | Some t \<Rightarrow> Inr (hdrs(''Authorization'' \<mapsto> ''Bearer '' @ t)))"

subsection \<open>authenticate\<close>

text \<open>
  \<open>auth.getToken\<close> is a collaborator in continuation-passing form. The source changes
  the caller's options object in place and calls \<open>callback()\<close> or \<open>callback(error)\<close>;
  the callback of the model is given, beside the error, the state of the options
  object at the moment of the call. \<open>Inl\<close> is an exception: the one thrown before the
  token store is asked, or one that leaves the continuation.
\<close>

definition authenticate ::
  "((err option \<Rightarrow> string option \<Rightarrow> err + 'r) \<Rightarrow> err + 'r) \<Rightarrow>
   'a options_scheme option \<Rightarrow> (err option \<Rightarrow> 'a options_scheme \<Rightarrow> 'r) \<Rightarrow> err + 'r" where
  "authenticate auth_getToken options callback =
     (case options of
        None \<Rightarrow> Inl (Err Error ''Missing options'')
      | Some opts \<Rightarrow>
          auth_getToken (\<lambda>error token.
            if error \<noteq> None then Inr (callback error opts)
            else case token of
              Some t \<Rightarrow>
                (case addAuthorizationHeader (headers opts) (Some t) of
                   Inl thrown \<Rightarrow> Inl thrown
                 | Inr h \<Rightarrow> Inr (callback None (opts\<lparr>headers := Some h\<rparr>)))
            | None \<Rightarrow> Inr (callback None opts)))"

subsection \<open>sendRequest\<close>

text \<open>
  \<open>connection.request(options, function(error, response) ...)\<close> is a collaborator in
  continuation-passing form; it hands over a response object whenever it reports no
  error, and the response that comes with an error is not read. \<open>JSON.parse\<close> is a
  collaborator too: it is given the text and the rest of the computation, which it
  resumes with \<open>Some\<close> structure, or with \<open>None\<close> where the source's
  \<open>try\<close>/\<open>catch\<close> swallows the parse error. A parser \<open>p\<close> that just returns is
  \<open>\<lambda>s k. k (p s)\<close>. The callback takes the three arguments \<open>(error, response, body)\<close>;
  \<open>callback(error)\<close> leaves the last two out.
\<close>

definition with_body :: "(string, 'm) response_scheme \<Rightarrow> 'j body \<Rightarrow> ('j body, 'm) response_scheme" where
  "with_body resp b = \<lparr>statusCode = statusCode resp, body = b, \<dots> = response.more resp\<rparr>"

definition sendRequest ::
  "(string \<Rightarrow> ('j option \<Rightarrow> 'r) \<Rightarrow> 'r) \<Rightarrow>
   ('o \<Rightarrow> (err option \<Rightarrow> (string, 'm) response_scheme \<Rightarrow> 'r) \<Rightarrow> 'r) \<Rightarrow>
   'o \<Rightarrow>
   (err option \<Rightarrow> ('j body, 'm) response_scheme option \<Rightarrow> 'j body option \<Rightarrow> 'r) \<Rightarrow> 'r" where
  "sendRequest JSON_parse connection_request options callback =
     connection_request options (\<lambda>error resp.
       if error \<noteq> None then callback error None None
       else if statusCode resp \<ge> 400 then callback (Some (Err Error (body resp))) None None
       else JSON_parse (body resp) (\<lambda>parsed.
         let b = (case parsed of Some j \<Rightarrow> Json j | None \<Rightarrow> Text (body resp))
         in callback None (Some (with_body resp b)) (Some b)))"

text \<open>
  Two instruments for reading off what a run did: a parser collaborator that adds one
  to the number of parse attempts of the computation it resumes, and a callback that
  starts that count at zero and records its arguments.
\<close>

definition counting_parse :: "(string \<Rightarrow> 'j option) \<Rightarrow> string \<Rightarrow> ('j option \<Rightarrow> nat \<times> 'x) \<Rightarrow> nat \<times> 'x" where
  "counting_parse p s k = (case k (p s) of (n, x) \<Rightarrow> (Suc n, x))"

definition recording_callback ::
  "err option \<Rightarrow> 'resp option \<Rightarrow> 'b option \<Rightarrow> nat \<times> (err option \<times> 'resp option \<times> 'b option) list" where
  "recording_callback error resp b = (0, [(error, resp, b)])"

subsection \<open>pipeRequest\<close>

text \<open>
  An event emitter is the list of its listeners, in the order of registration, each
  under the name of its event. \<open>on\<close> registers a listener; \<open>emit\<close> calls every listener
  of the event, in that order, with the argument of the event.
\<close>

datatype 's arg = NoArg | ErrorArg err | StateArg 's

type_synonym ('s, 'r) emitter = "(string \<times> ('s arg \<Rightarrow> 'r)) list"

definition on :: "string \<Rightarrow> ('s arg \<Rightarrow> 'r) \<Rightarrow> ('s, 'r) emitter \<Rightarrow> ('s, 'r) emitter" where
  "on name listener e = e @ [(name, listener)]"

definition emit :: "('s, 'r) emitter \<Rightarrow> string \<Rightarrow> 's arg \<Rightarrow> 'r list" where
  "emit e name a = map (\<lambda>(n, listener). listener a) (filter (\<lambda>(n, listener). n = name) e)"

text \<open>The options of a streaming request carry the destination sink, \<open>options.pipe\<close>.\<close>

record ('s, 'r) pipe_options = options +
  pipe :: "('s, 'r) emitter"

text \<open>
  \<open>progress(connection.request(options))\<close> is the request, an emitter; the chain
  registers the progress listener and the callback on it, pipes it into the sink, and
  registers the callback on the sink twice. The progress listener is what
  \<open>ProgressState.createFromNodeRequestProgress(onProgress)\<close> returns. The source
  returns the sink; the model returns the request beside it.
\<close>

definition pipeRequest ::
  "(('s, 'r, 'a) pipe_options_scheme \<Rightarrow> ('s, 'r) emitter) \<Rightarrow> ('s, 'r, 'a) pipe_options_scheme \<Rightarrow>
   ('s arg \<Rightarrow> 'r) \<Rightarrow> ('s arg \<Rightarrow> 'r) \<Rightarrow> ('s, 'r) emitter \<times> ('s, 'r) emitter" where
  "pipeRequest connection_request options callback progressListener =
     (let request = on ''error'' callback
                      (on ''progress'' progressListener (connection_request options));
          sink = on ''close'' callback (on ''error'' callback (pipe options))
      in (request, sink))"

text \<open>
  What the two emitters do over a transfer: the events they emit, in order of
  occurrence, each with its emitter, its name and its argument.
\<close>

datatype source = Request | Sink

definition deliver ::
  "('s, 'r) emitter \<times> ('s, 'r) emitter \<Rightarrow> source \<times> string \<times> 's arg \<Rightarrow> 'r list" where
  "deliver streams ev =
     (case ev of (src, name, a) \<Rightarrow>
        (case src of Request \<Rightarrow> emit (fst streams) name a | Sink \<Rightarrow> emit (snd streams) name a))"

definition run ::
  "('s, 'r) emitter \<times> ('s, 'r) emitter \<Rightarrow> (source \<times> string \<times> 's arg) list \<Rightarrow> 'r list" where
  "run streams evs = concat (map (deliver streams) evs)"

text \<open>The calls a run makes, when the callback and the progress listener record them.\<close>

datatype 's notification = OnComplete "'s arg" | OnProgress "'s arg"

fun is_OnComplete :: "'s notification \<Rightarrow> bool" where
  "is_OnComplete (OnComplete _) = True"
| "is_OnComplete (OnProgress _) = False"

text \<open>
  The events that end a transfer: an \<open>error\<close> of the request, an \<open>error\<close> of the sink and
  the \<open>close\<close> of the sink.
\<close>

fun terminal :: "source \<times> string \<times> 's arg \<Rightarrow> bool" where
  "terminal (Request, name, a) = (name = ''error'')"
| "terminal (Sink, name, a) = (name = ''error'' \<or> name = ''close'')"

section \<open>progress-state\<close>

text \<open>
  Modelled from the spec: the module \<open>./progress-state\<close>, which \<open>server-utils.js\<close>
  requires for \<open>ProgressState.createFromNodeRequestProgress\<close>, is not among the sources.
  A raw transfer event is a sample of one transfer: the cumulative bytes transferred,
  the total size when it is known, and the time of the sample in seconds.
\<close>

record raw_transfer_event =
  ev_transferred :: int
  ev_total :: "int option"
  ev_time :: rat

text \<open>
  Modelled from the spec: the progress snapshot of the missing module
  \<open>./progress-state\<close>, with the attributes the spec lists: percentage (undefined if the
  total is unknown), transferred bytes, total bytes (optional), speed in bytes a second
  and the estimated seconds remaining (optional).
\<close>

record progress_snapshot =
  percentage :: "int option"
  transferred :: int
  total :: "int option"
  speed :: rat
  eta :: "rat option"

text \<open>
  Modelled from the spec: the computation per event of the Progress Tracker (the
  missing module \<open>./progress-state\<close>), given the bytes and the time of the previous
  sample, if there was one.
  Percentage is \<open>floor(100 \<times> transferred / total)\<close> when the total is known, otherwise
  undefined, and undefined for a total of 0.
  Speed is the bytes since the previous sample over the time since the previous
  sample, 0 for the first sample and 0 for an elapsed time of 0.
  Eta is \<open>(total - transferred) / speed\<close> when the speed is positive and the total is
  known, otherwise undefined.
\<close>

definition snapshot :: "(int \<times> rat) option \<Rightarrow> raw_transfer_event \<Rightarrow> progress_snapshot" where
  "snapshot previous ev =
     (let pct = (case ev_total ev of
                   None \<Rightarrow> None
                 | Some t \<Rightarrow> if t = 0 then None
                             else Some \<lfloor>100 * rat_of_int (ev_transferred ev) / rat_of_int t\<rfloor>);
          spd = (case previous of
                   None \<Rightarrow> 0
                 | Some (bytes0, time0) \<Rightarrow>
                     if ev_time ev - time0 = 0 then 0
                     else rat_of_int (ev_transferred ev - bytes0) / (ev_time ev - time0));
          remaining = (case ev_total ev of
                   None \<Rightarrow> None
                 | Some t \<Rightarrow> if spd > 0 then Some (rat_of_int (t - ev_transferred ev) / spd)
                             else None)
      in \<lparr>percentage = pct, transferred = ev_transferred ev, total = ev_total ev,
          speed = spd, eta = remaining\<rparr>)"

text \<open>
  Modelled from the spec: the Progress Tracker of the missing module
  \<open>./progress-state\<close> gives one snapshot for each event, in order, and carries the
  bytes and the time of the previous sample from one event to the next.
\<close>

fun track :: "(int \<times> rat) option \<Rightarrow> raw_transfer_event list \<Rightarrow> progress_snapshot list" where
  "track previous [] = []"
| "track previous (ev # evs) =
     snapshot previous ev # track (Some (ev_transferred ev, ev_time ev)) evs"

text \<open>
  Modelled from the spec: a tracker of the missing module \<open>./progress-state\<close> is
  created for one transfer and starts without a previous sample.
\<close>

definition progress_tracker :: "raw_transfer_event list \<Rightarrow> progress_snapshot list" where
  "progress_tracker evs = track None evs"

section \<open>models/device.js\<close>

subsection \<open>Data\<close>

text \<open>
  A device as the API returns it with \<open>expand: 'application'\<close>: the \<open>application\<close>
  field is an array of applications, each with an \<open>app_name\<close>; the functions of this
  module add the field \<open>application_name\<close>. The query object given to \<open>pine.get\<close> has
  a resource, for one function an id, and the options \<open>filter.application\<close>,
  \<open>expand\<close> and \<open>orderby\<close>.
\<close>

record app =
  app_name :: string

record device =
  application :: "app list"
  application_name :: "string option"

record query =
  resource :: string
  query_id :: "string option"
  filter_application :: "string option"
  expand :: "string option"
  orderby :: "string option"

subsection \<open>Promises and callbacks\<close>

text \<open>
  \<open>pine.get\<close> returns a promise; the model has it settled: \<open>Inl\<close> is rejected with an
  error, \<open>Inr\<close> is fulfilled with a value. A call of the Node-style callback is
  \<open>Call error result\<close>, where \<open>callback(error)\<close> has no result and
  \<open>callback(null, x)\<close> no error. The callback is the caller's function: given a call
  it returns normally (\<open>None\<close>) or throws. Handlers take the list of the calls made so
  far and return it extended, with the exception that leaves the handler, if any.
\<close>

type_synonym 'a promise = "err + 'a"

datatype 'd call = Call "err option" "'d option"

definition invoke ::
  "('d call \<Rightarrow> err option) \<Rightarrow> 'd call \<Rightarrow> 'd call list \<Rightarrow> err option \<times> 'd call list" where
  "invoke callback c calls = (callback c, calls @ [c])"

definition throw :: "err \<Rightarrow> 'l \<Rightarrow> err option \<times> 'l" where
  "throw e calls = (Some e, calls)"

text \<open>
  \<open>p.then(f)\<close> runs \<open>f\<close> on the value of a fulfilled \<open>p\<close> and is rejected with what
  \<open>f\<close> throws; a rejected \<open>p\<close> passes through. \<open>p.catch(g)\<close> runs \<open>g\<close> on the error of
  a rejected \<open>p\<close>.
\<close>

definition then_p ::
  "'a promise \<Rightarrow> ('a \<Rightarrow> 'l \<Rightarrow> err option \<times> 'l) \<Rightarrow> 'l \<Rightarrow> unit promise \<times> 'l" where
  "then_p p onFulfilled calls =
     (case p of
        Inl e \<Rightarrow> (Inl e, calls)
      | Inr v \<Rightarrow>
          (case onFulfilled v calls of
             (Some thrown, calls') \<Rightarrow> (Inl thrown, calls')
           | (None, calls') \<Rightarrow> (Inr (), calls')))"

definition catch_p ::
  "unit promise \<times> 'l \<Rightarrow> (err \<Rightarrow> 'l \<Rightarrow> err option \<times> 'l) \<Rightarrow> unit promise \<times> 'l" where
  "catch_p pl onRejected =
     (case pl of
        (Inr u, calls) \<Rightarrow> (Inr u, calls)
      | (Inl e, calls) \<Rightarrow>
          (case onRejected e calls of
             (Some thrown, calls') \<Rightarrow> (Inl thrown, calls')
           | (None, calls') \<Rightarrow> (Inr (), calls')))"

subsection \<open>getAll and getAllByApplication\<close>

definition getAll ::
  "(query \<Rightarrow> 'd list promise) \<Rightarrow> ('d list call \<Rightarrow> err option) \<Rightarrow>
   unit promise \<times> 'd list call list" where
  "getAll pine_get callback =
     catch_p
       (then_p
          (pine_get \<lparr>resource = ''device'', query_id = None, filter_application = None,
                     expand = Some ''application'', orderby = Some ''name asc''\<rparr>)
          (\<lambda>devices.
             if devices = [] then invoke callback (Call (Some (Err NotAny ''devices'')) None)
             else invoke callback (Call None (Some devices)))
          [])
       (\<lambda>error. invoke callback (Call (Some error) None))"

text \<open>
  \<open>device.application_name = device.application[0].app_name\<close>: reading \<open>app_name\<close> of
  the first element of an empty array throws a \<open>TypeError\<close> (the message is the
  engine's).
\<close>

definition set_application_name :: "'a device_scheme \<Rightarrow> err + 'a device_scheme" where
  "set_application_name d =
     (case application d of
        [] \<Rightarrow> Inl (Err TypeError ''Cannot read property app_name of undefined'')
      | a # _ \<Rightarrow> Inr (d\<lparr>application_name := Some (app_name a)\<rparr>))"

fun map_devices :: "'a device_scheme list \<Rightarrow> err + 'a device_scheme list" where
  "map_devices [] = Inr []"
| "map_devices (d # ds) =
     (case set_application_name d of
        Inl e \<Rightarrow> Inl e
      | Inr d' \<Rightarrow> (case map_devices ds of Inl e \<Rightarrow> Inl e | Inr ds' \<Rightarrow> Inr (d' # ds')))"

definition getAllByApplication ::
  "(query \<Rightarrow> 'a device_scheme list promise) \<Rightarrow> string \<Rightarrow>
   ('a device_scheme list call \<Rightarrow> err option) \<Rightarrow>
   unit promise \<times> 'a device_scheme list call list" where
  "getAllByApplication pine_get applicationId callback =
     catch_p
       (then_p
          (pine_get \<lparr>resource = ''device'', query_id = None,
                     filter_application = Some applicationId,
                     expand = Some ''application'', orderby = Some ''name asc''\<rparr>)
          (\<lambda>devices.
             if devices = [] then invoke callback (Call (Some (Err NotAny ''devices'')) None)
             else case map_devices devices of
                    Inl e \<Rightarrow> throw e
                  | Inr devices' \<Rightarrow> invoke callback (Call None (Some devices')))
          [])
       (\<lambda>error. invoke callback (Call (Some error) None))"

subsection \<open>get\<close>

text \<open>
  The identifiers bound where the handler of \<open>get\<close> is evaluated: its parameter, the
  parameters of \<open>get\<close>, the variables the module declares, and the names Node's module
  wrapper binds. A reference to an identifier that none of the scopes binds, and that
  the global object does not define, throws a \<open>ReferenceError\<close>; Node's global object
  defines no \<open>id\<close>. \<open>value_of\<close> gives, for a bound identifier, its value as the string
  that \<open>+\<close> makes of it.
\<close>

definition get_scope :: "string list" where
  "get_scope = [''device'', ''deviceId'', ''callback'',
                ''DEVICES'', ''errors'', ''pine'', ''server'', ''settings'', ''_'',
                ''exports'', ''require'', ''module'', ''__filename'', ''__dirname'']"

definition reference :: "string list \<Rightarrow> (string \<Rightarrow> string) \<Rightarrow> string \<Rightarrow> err + string" where
  "reference scope value_of name =
     (if name \<in> set scope then Inr (value_of name)
      else Inl (Err ReferenceError (name @ '' is not defined'')))"

definition get ::
  "(string \<Rightarrow> string) \<Rightarrow> (query \<Rightarrow> 'a device_scheme option promise) \<Rightarrow> string \<Rightarrow>
   ('a device_scheme call \<Rightarrow> err option) \<Rightarrow> unit promise \<times> 'a device_scheme call list" where
  "get value_of pine_get deviceId callback =
     catch_p
       (then_p
          (pine_get \<lparr>resource = ''device'', query_id = Some deviceId, filter_application = None,
                     expand = Some ''application'', orderby = None\<rparr>)
          (\<lambda>device.
             case device of
               None \<Rightarrow>
                 (case reference get_scope value_of ''id'' of
                    Inl e \<Rightarrow> throw e
                  | Inr v \<Rightarrow> invoke callback (Call (Some (Err NotFound (''device '' @ v))) None))
             | Some d \<Rightarrow>
                 (case set_application_name d of
                    Inl e \<Rightarrow> throw e
                  | Inr d' \<Rightarrow> invoke callback (Call None (Some d'))))
          [])
       (\<lambda>error. invoke callback (Call (Some error) None))"

section \<open>Properties of server-utils.js\<close>

text \<open>
  C5. With a token \<open>T\<close>, \<open>addAuthorizationHeader(H, T)\<close> returns a header mapping whose
  \<open>Authorization\<close> entry is \<open>"Bearer " + T\<close> and in which every other key of \<open>H\<close>
  keeps its value (and no other key appears); an absent \<open>H\<close> counts as the empty header
  set. Without a token the function throws, whatever \<open>H\<close> is.
\<close>

theorem addAuthorizationHeader_spec:
  "(\<exists>h'. addAuthorizationHeader H (Some T) = Inr h' \<and>
         h' ''Authorization'' = Some (''Bearer '' @ T) \<and>
         (\<forall>k. k \<noteq> ''Authorization'' \<longrightarrow>
              h' k = (case H of None \<Rightarrow> None | Some h \<Rightarrow> h k))) \<and>
   addAuthorizationHeader None (Some T) = Inr [''Authorization'' \<mapsto> ''Bearer '' @ T] \<and>
   addAuthorizationHeader H None = Inl (Err Error ''Missing token'')"
  by (cases H) (simp_all add: addAuthorizationHeader_def)

theorem addAuthorizationHeader_spec_witness:
  "addAuthorizationHeader (Some [''Accept'' \<mapsto> ''text/plain'', ''Authorization'' \<mapsto> ''old''])
       (Some ''abc'')
     = Inr [''Accept'' \<mapsto> ''text/plain'', ''Authorization'' \<mapsto> ''Bearer abc''] \<and>
   addAuthorizationHeader (Some [''Accept'' \<mapsto> ''text/plain'']) None
     = Inl (Err Error ''Missing token'')"
proof -
  let ?H = "Some [''Accept'' \<mapsto> ''text/plain'', ''Authorization'' \<mapsto> ''old'']"
  from addAuthorizationHeader_spec [of ?H "''abc''"]
  obtain h' where h: "addAuthorizationHeader ?H (Some ''abc'') = Inr h'"
    and a: "h' ''Authorization'' = Some ''Bearer abc''"
    and o: "\<forall>k. k \<noteq> ''Authorization'' \<longrightarrow> h' k = [''Accept'' \<mapsto> ''text/plain'', ''Authorization'' \<mapsto> ''old''] k"
    by auto
  have "h' = [''Accept'' \<mapsto> ''text/plain'', ''Authorization'' \<mapsto> ''Bearer abc'']"
  proof
    fix k show "h' k = [''Accept'' \<mapsto> ''text/plain'', ''Authorization'' \<mapsto> ''Bearer abc''] k"
      using a o by (cases "k = ''Authorization''") simp_all
  qed
  with h addAuthorizationHeader_spec [of "Some [''Accept'' \<mapsto> ''text/plain'']"]
  show ?thesis by simp
qed

text \<open>
  C2, as the spec states it, asks for the message "no network connectivity" when the
  probe reports offline. The error the callback gets there is a plain \<open>Error\<close> with
  another text.
\<close>

theorem checkIfOnline_offline_counterexample:
  "checkIfOnline (\<lambda>k. k None False) id
     = Some (Err Error ''You need internet connection to perform this task'') \<and>
   arg (the (checkIfOnline (\<lambda>k. k None False) id)) \<noteq> ''no network connectivity''"
  by (simp add: checkIfOnline_def)

text \<open>
  C2, amended. If the probe fails, the callback receives that error; if it reports
  online, the callback is called without an error; if it reports offline, the callback
  receives an \<open>Error\<close> whose message is "You need internet connection to perform this
  task".
\<close>

theorem checkIfOnline_spec:
  "checkIfOnline (\<lambda>k. k (Some e) isOnline) callback = callback (Some e) \<and>
   checkIfOnline (\<lambda>k. k None True) callback = callback None \<and>
   checkIfOnline (\<lambda>k. k None False) callback
     = callback (Some (Err Error ''You need internet connection to perform this task''))"
  by (simp add: checkIfOnline_def)

text \<open>
  C6. With options present: a failure of the token store goes to the callback, the
  options as they were; with a token, the callback is called without an error and the
  options' headers carry the Bearer \<open>Authorization\<close> entry beside their other entries;
  without a token, the callback is called without an error and the options are the
  ones that were given.
\<close>

theorem authenticate_spec:
  "authenticate (\<lambda>k. k (Some e) token) (Some opts) callback = Inr (callback (Some e) opts) \<and>
   authenticate (\<lambda>k. k None (Some T)) (Some opts) callback
     = Inr (callback None
         (opts\<lparr>headers := Some ((case headers opts of None \<Rightarrow> Map.empty | Some h \<Rightarrow> h)
                                  (''Authorization'' \<mapsto> ''Bearer '' @ T))\<rparr>)) \<and>
   authenticate (\<lambda>k. k None None) (Some opts) callback = Inr (callback None opts)"
  by (simp add: authenticate_def addAuthorizationHeader_def)

text \<open>
  C3. When the transport hands over a response with status 400 or more, the callback
  receives an \<open>Error\<close> whose message is the body text, and neither response nor body.
  Whatever the transport hands over, with a parser that returns, the callback is
  called once, either with an error and nothing else, or with no error, a response and
  a body.
\<close>

theorem sendRequest_error_status:
  "(400 \<le> statusCode resp \<longrightarrow>
      sendRequest JSON_parse (\<lambda>opts k. k None resp) options callback
        = callback (Some (Err Error (body resp))) None None) \<and>
   (\<exists>e r b. sendRequest (\<lambda>s k. k (p s)) (\<lambda>opts k. k error resp) options (\<lambda>e r b. [(e, r, b)])
               = [(e, r, b)] \<and>
            ((e \<noteq> None \<and> r = None \<and> b = None) \<or> (e = None \<and> r \<noteq> None \<and> b \<noteq> None)))"
  by (cases error) (simp_all add: sendRequest_def Let_def)

theorem sendRequest_error_status_witness:
  "(400::int) \<le> 404 \<and>
   sendRequest (\<lambda>s k. k (None :: unit option)) (\<lambda>opts k. k None \<lparr>statusCode = 404, body = ''missing''\<rparr>)
       \<lparr>headers = None\<rparr> (\<lambda>e r b. (e, r, b))
     = (Some (Err Error ''missing''), None, None)"
  using sendRequest_error_status
    [of "\<lparr>statusCode = 404, body = ''missing''\<rparr>" "\<lambda>s k. k (None :: unit option)"
        "\<lparr>headers = None\<rparr>" "\<lambda>e r b. (e, r, b)", THEN conjunct1]
  by simp

text \<open>
  C4. When the transport hands over a response with status below 400, the run is one
  call of \<open>JSON.parse\<close> on the body text, resumed by one call of the callback with no
  error: with the parsed structure as the body if the parse succeeded, with the text
  as it was if it failed. Counted, that is one parse attempt and one callback call.
\<close>

theorem sendRequest_parse_once:
  assumes "statusCode resp < 400"
  shows "sendRequest JSON_parse (\<lambda>opts k. k None resp) options callback
           = JSON_parse (body resp) (\<lambda>parsed.
               callback None
                 (Some (with_body resp (case parsed of Some j \<Rightarrow> Json j | None \<Rightarrow> Text (body resp))))
                 (Some (case parsed of Some j \<Rightarrow> Json j | None \<Rightarrow> Text (body resp)))) \<and>
         (p (body resp) = Some j \<longrightarrow>
            sendRequest (counting_parse p) (\<lambda>opts k. k None resp) options recording_callback
              = (1, [(None, Some (with_body resp (Json j)), Some (Json j))])) \<and>
         (p (body resp) = None \<longrightarrow>
            sendRequest (counting_parse p) (\<lambda>opts k. k None resp) options recording_callback
              = (1, [(None, Some (with_body resp (Text (body resp))), Some (Text (body resp)))]))"
  using assms
  by (simp add: sendRequest_def Let_def counting_parse_def recording_callback_def)

theorem sendRequest_parse_once_witness:
  "sendRequest (counting_parse (\<lambda>s. if s = ''[1]'' then Some [1::int] else None))
       (\<lambda>opts k. k None \<lparr>statusCode = 200, body = ''[1]''\<rparr>) \<lparr>headers = None\<rparr> recording_callback
     = (1, [(None, Some \<lparr>statusCode = 200, body = Json [1]\<rparr>, Some (Json [1]))]) \<and>
   sendRequest (counting_parse (\<lambda>s. if s = ''[1]'' then Some [1::int] else None))
       (\<lambda>opts k. k None \<lparr>statusCode = 200, body = ''not json''\<rparr>) \<lparr>headers = None\<rparr> recording_callback
     = (1, [(None, Some \<lparr>statusCode = 200, body = Text ''not json''\<rparr>, Some (Text ''not json''))])"
proof -
  let ?p = "\<lambda>s. if s = ''[1]'' then Some [1::int] else None"
  have a: "statusCode \<lparr>statusCode = 200, body = ''[1]''\<rparr> < 400" by simp
  have b: "statusCode \<lparr>statusCode = 200, body = ''not json''\<rparr> < 400" by simp
  show ?thesis
    using sendRequest_parse_once [OF a, where p = ?p and j = "[1]" and options = "\<lparr>headers = None\<rparr>",
            THEN conjunct2, THEN conjunct1]
          sendRequest_parse_once [OF b, where p = ?p and options = "\<lparr>headers = None\<rparr>",
            THEN conjunct2, THEN conjunct2]
    by (simp add: with_body_def)
qed

subsection \<open>The streaming pipe\<close>

lemma emit_on: "emit (on n l e) name a = emit e name a @ (if n = name then [l a] else [])"
  by (simp add: emit_def on_def)

lemma emit_Nil: "emit [] name a = []"
  by (simp add: emit_def)

lemma deliver_pipeRequest:
  "deliver (pipeRequest (\<lambda>_. []) (opts\<lparr>pipe := []\<rparr>) OnComplete OnProgress) (src, name, a) =
     (if src = Request \<and> name = ''progress'' then [OnProgress a]
      else if terminal (src, name, a) then [OnComplete a] else [])"
  by (cases src) (auto simp add: deliver_def pipeRequest_def Let_def emit_on emit_Nil)

text \<open>
  C1, as the spec states it, has the callback called exactly once, later errors being
  ignored. On a transfer where the request reports an error and then the sink reports
  one, the callback is called twice, with each error.
\<close>

theorem pipeRequest_twice_counterexample:
  "run (pipeRequest (\<lambda>_. []) \<lparr>headers = None, pipe = []\<rparr> OnComplete OnProgress)
     [(Request, ''error'', ErrorArg (Err Error ''ECONNRESET'')),
      (Sink, ''error'', ErrorArg (Err Error ''EPIPE''))]
   = [OnComplete (ErrorArg (Err Error ''ECONNRESET'')),
      OnComplete (ErrorArg (Err Error ''EPIPE'') :: unit arg)]"
  by (simp add: run_def deliver_def pipeRequest_def emit_def on_def)

text \<open>
  C1, amended. Over a transfer on a fresh request and a fresh sink, the callback is
  called once for each \<open>error\<close> event of the request, each \<open>error\<close> event of the sink
  and each \<open>close\<close> event of the sink, in the order of the events and with the
  argument of the event (the error; nothing for a close), and for nothing else. So
  the number of its calls is the number of those events: it is called exactly once on
  the transfers that have exactly one of them.
\<close>

theorem pipeRequest_onComplete_per_event:
  "filter is_OnComplete (run (pipeRequest (\<lambda>_. []) (opts\<lparr>pipe := []\<rparr>) OnComplete OnProgress) evs)
     = map (\<lambda>(src, name, a). OnComplete a) (filter terminal evs) \<and>
   length (filter is_OnComplete (run (pipeRequest (\<lambda>_. []) (opts\<lparr>pipe := []\<rparr>) OnComplete OnProgress) evs))
     = length (filter terminal evs)"
proof -
  let ?streams = "pipeRequest (\<lambda>_. []) (opts\<lparr>pipe := []\<rparr>) OnComplete OnProgress"
  have "filter is_OnComplete (run ?streams evs)
          = map (\<lambda>(src, name, a). OnComplete a) (filter terminal evs)"
  proof (induction evs)
    case Nil
    show ?case by (simp add: run_def)
  next
    case (Cons ev evs)
    obtain src name a where ev: "ev = (src, name, a)" by (cases ev)
    have "run ?streams (ev # evs) = deliver ?streams ev @ run ?streams evs"
      by (simp add: run_def)
    with Cons ev show ?case
      by (simp add: deliver_pipeRequest del: terminal.simps) (cases src; simp)
  qed
  then show ?thesis by (metis length_map)
qed

subsection \<open>Failure reporting\<close>

text \<open>
  C7, as the spec states it, has no asynchronous entry point throw. \<open>authenticate\<close>
  without options throws before it asks the token store; the callback is not called.
\<close>

theorem authenticate_throws_counterexample:
  "authenticate (\<lambda>k. k None (Some ''secret'')) (None :: options option) (\<lambda>error opts. [error])
     = Inl (Err Error ''Missing options'')"
  by (simp add: authenticate_def)

text \<open>
  C7, amended. \<open>authenticate\<close> without options throws \<open>Error('Missing options')\<close> from
  the entry point and calls nothing. Otherwise, with a collaborator that completes
  once, \<open>checkIfOnline\<close>, \<open>authenticate\<close> and \<open>sendRequest\<close> report a failure by one call
  of the callback and throw nothing; \<open>pipeRequest\<close> calls the callback once for an
  \<open>error\<close> event of the request or of the sink.
\<close>

theorem failure_reporting:
  "authenticate auth_getToken None callback = Inl (Err Error ''Missing options'') \<and>
   checkIfOnline (\<lambda>k. k (Some e) isOnline) (\<lambda>error. [error]) = [Some e] \<and>
   checkIfOnline (\<lambda>k. k None False) (\<lambda>error. [error])
     = [Some (Err Error ''You need internet connection to perform this task'')] \<and>
   authenticate (\<lambda>k. k (Some e) token) (Some opts) (\<lambda>error opts. [error]) = Inr [Some e] \<and>
   sendRequest JSON_parse (\<lambda>opts k. k (Some e) resp) options (\<lambda>error r b. [error]) = [Some e] \<and>
   (400 \<le> statusCode resp \<longrightarrow>
      sendRequest JSON_parse (\<lambda>opts k. k None resp) options (\<lambda>error r b. [error])
        = [Some (Err Error (body resp))]) \<and>
   run (pipeRequest (\<lambda>_. []) (popts\<lparr>pipe := []\<rparr>) OnComplete OnProgress) [(src, ''error'', ErrorArg e)]
     = [OnComplete (ErrorArg e)]"
  by (cases src)
     (simp_all add: authenticate_def checkIfOnline_def sendRequest_def run_def deliver_pipeRequest)

theorem failure_reporting_witness:
  "(400::int) \<le> 500 \<and>
   sendRequest (\<lambda>s k. k (None :: unit option)) (\<lambda>opts k. k None \<lparr>statusCode = 500, body = ''oops''\<rparr>)
       \<lparr>headers = None\<rparr> (\<lambda>error r b. [error])
     = [Some (Err Error ''oops'')]"
  using failure_reporting
    [where resp = "\<lparr>statusCode = 500, body = ''oops''\<rparr>" and options = "\<lparr>headers = None\<rparr>"
       and JSON_parse = "\<lambda>s k. k (None :: unit option)",
     THEN conjunct2, THEN conjunct2, THEN conjunct2, THEN conjunct2, THEN conjunct2,
     THEN conjunct1]
  by simp

section \<open>Properties of the progress tracker\<close>

text \<open>
  C8. For one transfer of total size 1000 and the samples (0 bytes at 0 s, 500 bytes
  at 1 s), the first snapshot has speed 0, and the second has percentage 50, speed 500
  bytes a second and an eta of 1 second.
\<close>

theorem progress_tracker_example:
  "progress_tracker
     [\<lparr>ev_transferred = 0, ev_total = Some 1000, ev_time = 0\<rparr>,
      \<lparr>ev_transferred = 500, ev_total = Some 1000, ev_time = 1\<rparr>]
   = [\<lparr>percentage = Some 0, transferred = 0, total = Some 1000, speed = 0, eta = None\<rparr>,
      \<lparr>percentage = Some 50, transferred = 500, total = Some 1000, speed = 500, eta = Some 1\<rparr>]"
  by (simp add: progress_tracker_def snapshot_def)

section \<open>Properties of models/device.js\<close>

lemma id_unbound: "reference get_scope value_of ''id'' = Inl (Err ReferenceError ''id is not defined'')"
  by (simp add: reference_def get_scope_def)

text \<open>
  C9. When the query of \<open>get(deviceId, callback)\<close> resolves with no device, the
  callback is called once, with the \<open>ReferenceError\<close> that the unbound identifier
  \<open>id\<close> raises while the not-found message is built; it is not called with the
  \<open>NotFound\<close> error for \<open>"device " + deviceId\<close>.
\<close>

theorem get_absent_device:
  assumes "pine_get \<lparr>resource = ''device'', query_id = Some deviceId, filter_application = None,
                     expand = Some ''application'', orderby = None\<rparr> = Inr None"
  shows "snd (get value_of pine_get deviceId callback)
           = [Call (Some (Err ReferenceError ''id is not defined'')) None] \<and>
         Call (Some (Err NotFound (''device '' @ deviceId))) None
           \<notin> set (snd (get value_of pine_get deviceId callback))"
  using assms
  by (simp add: get_def then_p_def catch_p_def id_unbound throw_def invoke_def split: option.split)

theorem get_absent_device_witness:
  "snd (get (\<lambda>name. '''') (\<lambda>q. Inr None) ''51'' (\<lambda>c :: device call. None))
     = [Call (Some (Err ReferenceError ''id is not defined'')) None]"
  using get_absent_device [of "\<lambda>q. Inr None" "''51''" "\<lambda>name. ''''" "\<lambda>c :: device call. None"]
  by simp

lemma map_devices_length: "map_devices ds = Inr ds' \<Longrightarrow> length ds' = length ds"
  by (induction ds arbitrary: ds') (auto split: sum.splits)

lemma map_devices_nonempty: "ds \<noteq> [] \<Longrightarrow> map_devices ds = Inr ds' \<Longrightarrow> ds' \<noteq> []"
  using map_devices_length by fastforce

lemma getAll_calls:
  "snd (getAll pine_get callback) =
     (case pine_get \<lparr>resource = ''device'', query_id = None, filter_application = None,
                     expand = Some ''application'', orderby = Some ''name asc''\<rparr> of
        Inl e \<Rightarrow> [Call (Some e) None]
      | Inr devices \<Rightarrow>
          (let c = (if devices = [] then Call (Some (Err NotAny ''devices'')) None
                    else Call None (Some devices))
           in case callback c of None \<Rightarrow> [c] | Some thrown \<Rightarrow> [c, Call (Some thrown) None]))"
  by (simp add: getAll_def then_p_def catch_p_def invoke_def Let_def split: sum.split option.split)

lemma getAllByApplication_calls:
  "snd (getAllByApplication pine_get applicationId callback) =
     (case pine_get \<lparr>resource = ''device'', query_id = None,
                     filter_application = Some applicationId,
                     expand = Some ''application'', orderby = Some ''name asc''\<rparr> of
        Inl e \<Rightarrow> [Call (Some e) None]
      | Inr devices \<Rightarrow>
          if devices = [] then
            (let c = Call (Some (Err NotAny ''devices'')) None
             in case callback c of None \<Rightarrow> [c] | Some thrown \<Rightarrow> [c, Call (Some thrown) None])
          else case map_devices devices of
            Inl e \<Rightarrow> [Call (Some e) None]
          | Inr devices' \<Rightarrow>
              (let c = Call None (Some devices')
               in case callback c of None \<Rightarrow> [c] | Some thrown \<Rightarrow> [c, Call (Some thrown) None]))"
  by (simp add: getAllByApplication_def then_p_def catch_p_def invoke_def throw_def Let_def
           split: sum.split option.split)

text \<open>
  C10. No call of the callback of \<open>getAll\<close> or \<open>getAllByApplication\<close> reports success
  with an empty list of devices; when the query resolves with an empty collection, the
  callback is called with the \<open>NotAny\<close> error.
\<close>

theorem device_lists_never_empty:
  "(\<forall>ds. Call None (Some ds) \<in> set (snd (getAll pine_get callback)) \<longrightarrow> ds \<noteq> []) \<and>
   (\<forall>ds. Call None (Some ds) \<in> set (snd (getAllByApplication pine_get' applicationId callback'))
         \<longrightarrow> ds \<noteq> []) \<and>
   (pine_get \<lparr>resource = ''device'', query_id = None, filter_application = None,
              expand = Some ''application'', orderby = Some ''name asc''\<rparr> = Inr [] \<longrightarrow>
      hd (snd (getAll pine_get callback)) = Call (Some (Err NotAny ''devices'')) None \<and>
      snd (getAll pine_get callback) \<noteq> []) \<and>
   (pine_get' \<lparr>resource = ''device'', query_id = None, filter_application = Some applicationId,
               expand = Some ''application'', orderby = Some ''name asc''\<rparr> = Inr [] \<longrightarrow>
      hd (snd (getAllByApplication pine_get' applicationId callback'))
        = Call (Some (Err NotAny ''devices'')) None \<and>
      snd (getAllByApplication pine_get' applicationId callback') \<noteq> [])"
proof (intro conjI allI impI)
  fix ds assume "Call None (Some ds) \<in> set (snd (getAll pine_get callback))"
  then show "ds \<noteq> []"
    by (auto simp add: getAll_calls Let_def split: sum.splits option.splits if_splits)
next
  fix ds
  assume "Call None (Some ds) \<in> set (snd (getAllByApplication pine_get' applicationId callback'))"
  then show "ds \<noteq> []"
    by (auto simp add: getAllByApplication_calls Let_def
             split: sum.splits option.splits if_splits dest: map_devices_nonempty)
qed (simp_all add: getAll_calls getAllByApplication_calls Let_def split: option.split)

theorem device_lists_never_empty_witness:
  "hd (snd (getAll (\<lambda>q. Inr ([] :: device list)) (\<lambda>c. None)))
     = Call (Some (Err NotAny ''devices'')) None \<and>
   hd (snd (getAllByApplication (\<lambda>q. Inr ([] :: device list)) ''7'' (\<lambda>c. None)))
     = Call (Some (Err NotAny ''devices'')) None \<and>
   Call None (Some [\<lparr>application = [\<lparr>app_name = ''a''\<rparr>], application_name = Some ''a''\<rparr>])
     \<in> set (snd (getAllByApplication
          (\<lambda>q. Inr [\<lparr>application = [\<lparr>app_name = ''a''\<rparr>], application_name = None\<rparr>])
          ''7'' (\<lambda>c. None)))"
proof -
  have "Call None (Some [\<lparr>application = [\<lparr>app_name = ''a''\<rparr>], application_name = Some ''a''\<rparr>])
     \<in> set (snd (getAllByApplication
          (\<lambda>q. Inr [\<lparr>application = [\<lparr>app_name = ''a''\<rparr>], application_name = None\<rparr>])
          ''7'' (\<lambda>c. None)))"
    by (simp add: getAllByApplication_calls set_application_name_def)
  then show ?thesis
    using device_lists_never_empty
      [where pine_get = "\<lambda>q. Inr ([] :: device list)" and callback = "\<lambda>c. None"
         and pine_get' = "\<lambda>q. Inr ([] :: device list)" and applicationId = "''7''"
         and callback' = "\<lambda>c. None"]
    by simp
qed

end
